theory Spec2Isabelle
  imports Main
begin

section \<open>Breadcrumb icon selector\<close>

text \<open>
  Modelled from the spec: the enumeration \<open>BreadcrumbType\<close> is declared in
  \<open>app/types/breadcrumbs\<close>, which is not among the sources. The twelve members below are
  the ones the selector's \<open>switch\<close> names; \<open>UNLISTED v\<close> is any other value \<open>v\<close> that
  reaches the selector (a member the switch does not name, or a value outside the
  enumeration).
\<close>

datatype BreadcrumbType =
    USER | UI | NAVIGATION | DEBUG | INFO | ERROR | HTTP | WARNING
  | QUERY | SYSTEM | SESSION | TRANSACTION | UNLISTED string

text \<open>The icon components imported from \<open>app/icons\<close>, in the order of the import.\<close>

datatype glyph =
    IconFire | IconFix | IconInfo | IconLocation | IconMobile | IconRefresh
  | IconSpan | IconStack | IconSwitch | IconTerminal | IconUser | IconWarning

text \<open>A rendered icon: the component and the value of its \<open>size\<close> attribute.\<close>

datatype icon_element = IconElement glyph string

text \<open>
  The function \<open>Icon\<close>. The \<open>switch\<close> is a \<open>case\<close> in the source's order; the labels
  \<open>USER\<close> and \<open>UI\<close> fall through to one \<open>return\<close>.
\<close>

definition Icon :: "BreadcrumbType \<Rightarrow> icon_element" where
  "Icon type =
     (case type of
        USER \<Rightarrow> IconElement IconUser ''xs''
      | UI \<Rightarrow> IconElement IconUser ''xs''
      | NAVIGATION \<Rightarrow> IconElement IconLocation ''xs''
      | DEBUG \<Rightarrow> IconElement IconFix ''xs''
      | INFO \<Rightarrow> IconElement IconInfo ''xs''
      | ERROR \<Rightarrow> IconElement IconFire ''xs''
      | HTTP \<Rightarrow> IconElement IconSwitch ''xs''
      | WARNING \<Rightarrow> IconElement IconWarning ''xs''
      | QUERY \<Rightarrow> IconElement IconStack ''xs''
      | SYSTEM \<Rightarrow> IconElement IconMobile ''xs''
      | SESSION \<Rightarrow> IconElement IconRefresh ''xs''
      | TRANSACTION \<Rightarrow> IconElement IconSpan ''xs''
      | UNLISTED v \<Rightarrow> IconElement IconTerminal ''xs'')"

text \<open>The \<open>case\<close> labels of the switch, in the source's order.\<close>

definition case_labels :: "BreadcrumbType list" where
  "case_labels =
     [USER, UI, NAVIGATION, DEBUG, INFO, ERROR, HTTP, WARNING,
      QUERY, SYSTEM, SESSION, TRANSACTION]"


section \<open>Organization accessor\<close>

text \<open>
  Modelled from the spec: the type \<open>Organization\<close> is declared in \<open>app/types\<close>, which is
  not among the sources. The two fields are the ones the sources read (\<open>slug\<close> in
  \<open>useOrgSlug\<close>, \<open>features\<close> in the dashboard route container); every other field of an
  organization travels in the record's extension.
\<close>

record Organization =
  slug :: string
  features :: "string list"

text \<open>A thrown \<open>Error\<close> and its message.\<close>

datatype js_error = Error string

text \<open>
  \<open>useOrganization\<close>. The value of \<open>useContext(OrganizationContext)\<close> is the argument:
  \<open>None\<close> when the ambient context holds no organization (\<open>null\<close> or \<open>undefined\<close>, the
  only falsy values of an object type), \<open>Some\<close> of the organization otherwise. A
  \<open>throw\<close> is the left summand.
\<close>

definition useOrganization ::
  "'z Organization_scheme option \<Rightarrow> js_error + 'z Organization_scheme" where
  "useOrganization ctx =
     (case ctx of
        None \<Rightarrow> Inl (Error ''useOrganization called but organization is not set.'')
      | Some organization \<Rightarrow> Inr organization)"

text \<open>\<open>useOrgSlug\<close>: an error of the base accessor propagates before \<open>.slug\<close> is read.\<close>

definition useOrgSlug :: "'z Organization_scheme option \<Rightarrow> js_error + string" where
  "useOrgSlug ctx =
     (case useOrganization ctx of
        Inl e \<Rightarrow> Inl e
      | Inr organization \<Rightarrow> Inr (slug organization))"


section \<open>Transaction tree row\<close>

text \<open>
  The props of \<open>TransactionGroup\<close>. \<open>Location\<close>, the transaction node, \<open>TraceInfo\<close>,
  \<open>TreeDepth\<close> and \<open>React.ReactNode\<close> are declared outside the sources and only passed
  on, so they are type parameters. The optional \<open>barColour\<close> is an \<open>option\<close>.
\<close>

record ('loc, 'z, 'txn, 'info, 'depth, 'node) TransactionGroup_Props =
  location :: 'loc
  organization :: "'z Organization_scheme"
  transaction :: 'txn
  traceInfo :: 'info
  continuingDepths :: "'depth list"
  isOrphan :: bool
  isLast :: bool
  index :: int
  isVisible :: bool
  renderedChildren :: "'node list"
  barColour :: "string option"

record TransactionGroup_State =
  isExpanded :: bool

text \<open>An instance of the class: its props and its state.\<close>

record ('loc, 'z, 'txn, 'info, 'depth, 'node) TransactionGroup =
  props :: "('loc, 'z, 'txn, 'info, 'depth, 'node) TransactionGroup_Props"
  state :: TransactionGroup_State

text \<open>
  The attributes the row passes to \<open>TransactionBar\<close>, in the order of the JSX; \<open>'cb\<close> is
  the type of the toggle callback.
\<close>

record ('loc, 'z, 'txn, 'info, 'depth, 'cb) TransactionBar_Props =
  location :: 'loc
  organization :: "'z Organization_scheme"
  index :: int
  transaction :: 'txn
  traceInfo :: 'info
  continuingDepths :: "'depth list"
  isOrphan :: bool
  isLast :: bool
  isExpanded :: bool
  toggleExpandedState :: 'cb
  isVisible :: bool
  barColour :: "string option"

text \<open>
  The children of the returned fragment: the bar element, an array of nodes, or a
  boolean (the value of \<open>isExpanded && renderedChildren\<close> when \<open>isExpanded\<close> is false).
\<close>

datatype ('bar, 'node) ReactNode =
    TransactionBar 'bar
  | Nodes "'node list"
  | Boolean bool

datatype ('bar, 'node) React_Fragment = React_Fragment "('bar, 'node) ReactNode list"

text \<open>The class's state initialiser: a new instance is expanded.\<close>

definition new_TransactionGroup ::
  "('loc, 'z, 'txn, 'info, 'depth, 'node) TransactionGroup_Props \<Rightarrow>
   ('loc, 'z, 'txn, 'info, 'depth, 'node) TransactionGroup" where
  "new_TransactionGroup p = \<lparr>props = p, state = \<lparr>TransactionGroup_State.isExpanded = True\<rparr>\<rparr>"

text \<open>
  \<open>this.setState(updater)\<close>: the updater is applied to the current state of this
  instance and the object it returns is merged into that state, field by field; the
  props are untouched.
\<close>

definition setState ::
  "(TransactionGroup_State \<Rightarrow> TransactionGroup_State) \<Rightarrow>
   ('loc, 'z, 'txn, 'info, 'depth, 'node) TransactionGroup \<Rightarrow>
   ('loc, 'z, 'txn, 'info, 'depth, 'node) TransactionGroup" where
  "setState updater this =
     this\<lparr>state := (state this)\<lparr>TransactionGroup_State.isExpanded :=
                TransactionGroup_State.isExpanded (updater (state this))\<rparr>\<rparr>"

text \<open>\<open>toggleExpandedState\<close>: the updater returns the negation of \<open>isExpanded\<close>.\<close>

definition toggleExpandedState ::
  "('loc, 'z, 'txn, 'info, 'depth, 'node) TransactionGroup \<Rightarrow>
   ('loc, 'z, 'txn, 'info, 'depth, 'node) TransactionGroup" where
  "toggleExpandedState this =
     setState (\<lambda>s. \<lparr>TransactionGroup_State.isExpanded =
                       \<not> TransactionGroup_State.isExpanded s\<rparr>) this"

text \<open>
  \<open>render\<close>. The callback attribute is the method itself, to be applied to this
  instance. \<open>isExpanded && renderedChildren\<close> is \<open>renderedChildren\<close> when \<open>isExpanded\<close>
  is true and the value of \<open>isExpanded\<close> otherwise.
\<close>

definition render ::
  "('loc, 'z, 'txn, 'info, 'depth, 'node) TransactionGroup \<Rightarrow>
   (('loc, 'z, 'txn, 'info, 'depth,
     ('loc, 'z, 'txn, 'info, 'depth, 'node) TransactionGroup \<Rightarrow>
     ('loc, 'z, 'txn, 'info, 'depth, 'node) TransactionGroup) TransactionBar_Props,
    'node) React_Fragment" where
  "render this =
     (let p = props this;
          isExpanded = TransactionGroup_State.isExpanded (state this)
      in React_Fragment
           [TransactionBar
              \<lparr>TransactionBar_Props.location = TransactionGroup_Props.location p,
               TransactionBar_Props.organization = TransactionGroup_Props.organization p,
               TransactionBar_Props.index = TransactionGroup_Props.index p,
               TransactionBar_Props.transaction = TransactionGroup_Props.transaction p,
               TransactionBar_Props.traceInfo = TransactionGroup_Props.traceInfo p,
               TransactionBar_Props.continuingDepths = TransactionGroup_Props.continuingDepths p,
               TransactionBar_Props.isOrphan = TransactionGroup_Props.isOrphan p,
               TransactionBar_Props.isLast = TransactionGroup_Props.isLast p,
               TransactionBar_Props.isExpanded = isExpanded,
               TransactionBar_Props.toggleExpandedState = toggleExpandedState,
               TransactionBar_Props.isVisible = TransactionGroup_Props.isVisible p,
               TransactionBar_Props.barColour = TransactionGroup_Props.barColour p\<rparr>,
            if isExpanded then Nodes (renderedChildren p) else Boolean isExpanded])"

text \<open>
  The members of the class that can be invoked on an instance, and what invoking one
  does: the instance afterwards and, for \<open>render\<close>, the fragment returned.
\<close>

datatype member = ToggleExpandedState | Render

fun call ::
  "member \<Rightarrow> ('loc, 'z, 'txn, 'info, 'depth, 'node) TransactionGroup \<Rightarrow>
   ('loc, 'z, 'txn, 'info, 'depth, 'node) TransactionGroup \<times>
   (('loc, 'z, 'txn, 'info, 'depth,
     ('loc, 'z, 'txn, 'info, 'depth, 'node) TransactionGroup \<Rightarrow>
     ('loc, 'z, 'txn, 'info, 'depth, 'node) TransactionGroup) TransactionBar_Props,
    'node) React_Fragment option" where
  "call ToggleExpandedState this = (toggleExpandedState this, None)"
| "call Render this = (this, Some (render this))"

text \<open>
  Modelled from the spec: how React displays the children of a fragment is not in the
  sources. An element is displayed, an array of nodes is displayed node by node, and a
  boolean displays nothing (the spec: nothing additional is rendered when collapsed).
\<close>

datatype ('bar, 'node) displayed = Bar 'bar | Child 'node

fun display_node :: "('bar, 'node) ReactNode \<Rightarrow> ('bar, 'node) displayed list" where
  "display_node (TransactionBar b) = [Bar b]"
| "display_node (Nodes ns) = map Child ns"
| "display_node (Boolean b) = []"

fun display :: "('bar, 'node) React_Fragment \<Rightarrow> ('bar, 'node) displayed list" where
  "display (React_Fragment ns) = concat (map display_node ns)"

text \<open>
  Modelled from the spec: how React keeps the instances of the rows is not in the
  sources. The spec's words: the expansion state is owned by one row instance, created
  on row mount and destroyed on row unmount, with no persistence and no sharing across
  rows; the child rows are elements the caller has built, shown only while the row is
  expanded.

  A \<open>row\<close> is such an element: its key, its props (whose \<open>renderedChildren\<close> are the keys
  of the child rows) and the child rows' own elements.
\<close>

datatype ('loc, 'z, 'txn, 'info, 'depth) row =
  Row nat "('loc, 'z, 'txn, 'info, 'depth, nat) TransactionGroup_Props"
      "('loc, 'z, 'txn, 'info, 'depth) row list"

text \<open>Modelled from the spec: the instances of the rows that are mounted, by key.\<close>

type_synonym ('loc, 'z, 'txn, 'info, 'depth) mounted =
  "nat \<rightharpoonup> ('loc, 'z, 'txn, 'info, 'depth, nat) TransactionGroup"

text \<open>Modelled from the spec: the key of a row element.\<close>

fun row_key :: "('loc, 'z, 'txn, 'info, 'depth) row \<Rightarrow> nat" where
  "row_key (Row k p cs) = k"

text \<open>Modelled from the spec: the keys of a row and of every row nested in it.\<close>

fun row_keys :: "('loc, 'z, 'txn, 'info, 'depth) row \<Rightarrow> nat list" where
  "row_keys (Row k p cs) = k # concat (map row_keys cs)"

text \<open>Modelled from the spec: the child nodes among what a fragment displays.\<close>

fun child_nodes :: "('bar, 'node) displayed list \<Rightarrow> 'node list" where
  "child_nodes [] = []"
| "child_nodes (Bar b # ds) = child_nodes ds"
| "child_nodes (Child n # ds) = n # child_nodes ds"

text \<open>
  Modelled from the spec: a child row is shown by an instance when what the instance's
  \<open>render\<close> displays contains the child's key.
\<close>

definition shows_row ::
  "('loc, 'z, 'txn, 'info, 'depth, nat) TransactionGroup \<Rightarrow>
   ('loc, 'z, 'txn, 'info, 'depth) row \<Rightarrow> bool" where
  "shows_row this c = (row_key c \<in> set (child_nodes (display (render this))))"

text \<open>
  Modelled from the spec: unmounting a row destroys its instance and those of the rows
  nested in it; mounting a row creates its instance with the class's initial state and
  mounts the child rows the new instance shows.
\<close>

fun unmount ::
  "('loc, 'z, 'txn, 'info, 'depth) row \<Rightarrow> ('loc, 'z, 'txn, 'info, 'depth) mounted \<Rightarrow>
   ('loc, 'z, 'txn, 'info, 'depth) mounted" where
  "unmount (Row k p cs) h = (fold unmount cs h)(k := None)"

fun mount ::
  "('loc, 'z, 'txn, 'info, 'depth) row \<Rightarrow> ('loc, 'z, 'txn, 'info, 'depth) mounted \<Rightarrow>
   ('loc, 'z, 'txn, 'info, 'depth) mounted" where
  "mount (Row k p cs) h =
     fold (\<lambda>c. if shows_row (new_TransactionGroup p) c then mount c else id) cs
       (h(k \<mapsto> new_TransactionGroup p))"

text \<open>
  Modelled from the spec: after the state of an instance has changed, its child rows are
  brought in line with what it now shows. A child that is shown and not mounted is
  mounted, a child that is shown and mounted keeps its instance, a child that is not
  shown is unmounted.
\<close>

definition reconcile ::
  "('loc, 'z, 'txn, 'info, 'depth, nat) TransactionGroup \<Rightarrow>
   ('loc, 'z, 'txn, 'info, 'depth) row list \<Rightarrow> ('loc, 'z, 'txn, 'info, 'depth) mounted \<Rightarrow>
   ('loc, 'z, 'txn, 'info, 'depth) mounted" where
  "reconcile this cs h =
     fold (\<lambda>c h'. if shows_row this c
                   then (if h' (row_key c) = None then mount c h' else h')
                   else unmount c h') cs h"

text \<open>
  Modelled from the spec: invoking the toggle callback of the mounted row \<open>r\<close>. The
  method \<open>toggleExpandedState\<close> runs on the instance under the row's key (\<open>this\<close> in the
  method), the instance it returns replaces that instance, and the row's children are
  reconciled. On a row that is not mounted nothing happens.
\<close>

fun invoke_toggle ::
  "('loc, 'z, 'txn, 'info, 'depth) row \<Rightarrow> ('loc, 'z, 'txn, 'info, 'depth) mounted \<Rightarrow>
   ('loc, 'z, 'txn, 'info, 'depth) mounted" where
  "invoke_toggle (Row k p cs) h =
     (case h k of
        None \<Rightarrow> h
      | Some this \<Rightarrow>
          reconcile (toggleExpandedState this) cs (h(k \<mapsto> toggleExpandedState this)))"


section \<open>Dashboard route container\<close>

text \<open>
  The props of \<open>DashboardsV2Container\<close>: the five fields the function destructures.
  The types of the route parameters, the client, the location and the children are
  declared outside the sources and only passed on, so they are type parameters; the
  other fields of \<open>RouteComponentProps\<close> travel in the record's extension.
\<close>

record ('z, 'params, 'api, 'loc, 'children) DashboardsV2_Props =
  organization :: "'z Organization_scheme"
  params :: 'params
  api :: 'api
  location :: 'loc
  children :: 'children

text \<open>The attributes passed to \<open>OrgDashboards\<close>, in the order of the JSX.\<close>

record ('z, 'params, 'api, 'loc) OrgDashboards_Props =
  api :: 'api
  location :: 'loc
  params :: 'params
  organization :: "'z Organization_scheme"

text \<open>
  Modelled from the spec: \<open>OrgDashboards\<close> (\<open>./orgDashboards\<close>) is not among the sources.
  The argument of its render prop has the shape \<open>{dashboard, dashboards, error,
  reloadData}\<close>; the spec's examples leave \<open>dashboard\<close> and \<open>error\<close> out, so both are
  optional.
\<close>

record ('dashboard, 'dashboards, 'reload) OrgDashboards_Result =
  dashboard :: "'dashboard option"
  dashboards :: 'dashboards
  error :: "bool option"
  reloadData :: 'reload

text \<open>
  Modelled from the spec: the enumeration \<open>DashboardState\<close> is declared in \<open>./types\<close>,
  which is not among the sources. \<open>VIEW\<close> is the member the container uses;
  \<open>UNLISTED_STATE v\<close> is any other member.
\<close>

datatype DashboardState = VIEW | UNLISTED_STATE string

text \<open>
  The attributes passed to \<open>DashboardDetail\<close>: the spread \<open>{...props}\<close> first, then the
  four named attributes.
\<close>

record ('props, 'dashboard, 'dashboards, 'reload) DashboardDetail_Props =
  spread :: 'props
  initialState :: DashboardState
  dashboard :: 'dashboard
  dashboards :: 'dashboards
  reloadData :: 'reload

datatype 'detail loaded_element = NotFound | DashboardDetail 'detail | LoadingIndicator

datatype ('props, 'child) OrgDashboards_element = OrgDashboards 'props 'child

datatype ('children, 'org, 'child) container_element =
    Fragment 'children
  | DashboardBasicFeature 'org 'child

text \<open>
  JavaScript truthiness of the two values the render prop tests: an absent or false
  \<open>error\<close> is falsy, an absent \<open>dashboard\<close> is falsy, a dashboard object is truthy.
\<close>

definition truthy_flag :: "bool option \<Rightarrow> bool" where
  "truthy_flag e = (case e of None \<Rightarrow> False | Some b \<Rightarrow> b)"

text \<open>The arrow function handed to \<open>OrgDashboards\<close> as its children.\<close>

definition render_prop ::
  "('z, 'params, 'api, 'loc, 'children, 'more) DashboardsV2_Props_scheme \<Rightarrow>
   ('dashboard, 'dashboards, 'reload) OrgDashboards_Result \<Rightarrow>
   (('z, 'params, 'api, 'loc, 'children, 'more) DashboardsV2_Props_scheme,
    'dashboard, 'dashboards, 'reload) DashboardDetail_Props loaded_element" where
  "render_prop p r =
     (if truthy_flag (error r) then NotFound
      else case OrgDashboards_Result.dashboard r of
        Some d \<Rightarrow>
          DashboardDetail
            \<lparr>spread = p,
             initialState = VIEW,
             DashboardDetail_Props.dashboard = d,
             DashboardDetail_Props.dashboards = OrgDashboards_Result.dashboards r,
             DashboardDetail_Props.reloadData = OrgDashboards_Result.reloadData r\<rparr>
      | None \<Rightarrow> LoadingIndicator)"

definition DashboardsV2Container ::
  "('z, 'params, 'api, 'loc, 'children, 'more) DashboardsV2_Props_scheme \<Rightarrow>
   ('children, 'z Organization_scheme,
    (('z, 'params, 'api, 'loc) OrgDashboards_Props,
     ('dashboard, 'dashboards, 'reload) OrgDashboards_Result \<Rightarrow>
     (('z, 'params, 'api, 'loc, 'children, 'more) DashboardsV2_Props_scheme,
      'dashboard, 'dashboards, 'reload) DashboardDetail_Props loaded_element)
    OrgDashboards_element) container_element" where
  "DashboardsV2Container p =
     (if ''dashboards-edit'' \<in> set (features (DashboardsV2_Props.organization p))
      then Fragment (children p)
      else DashboardBasicFeature (DashboardsV2_Props.organization p)
             (OrgDashboards
                \<lparr>OrgDashboards_Props.api = DashboardsV2_Props.api p,
                 OrgDashboards_Props.location = DashboardsV2_Props.location p,
                 OrgDashboards_Props.params = DashboardsV2_Props.params p,
                 OrgDashboards_Props.organization = DashboardsV2_Props.organization p\<rparr>
                (render_prop p)))"

text \<open>
  Modelled from the spec: \<open>OrgDashboards\<close> hands its loader result to its render prop.
  \<open>with_result r\<close> is the container's element once the loader has supplied \<open>r\<close>: the
  \<open>OrgDashboards\<close> element is replaced by what its render prop returns for \<open>r\<close>; an
  element without a loader is unchanged. \<open>loaders\<close> lists the attributes of the
  \<open>OrgDashboards\<close> elements an element mounts.
\<close>

fun with_result ::
  "'result \<Rightarrow> ('children, 'org, ('props, 'result \<Rightarrow> 'view) OrgDashboards_element) container_element
   \<Rightarrow> ('children, 'org, 'view) container_element" where
  "with_result r (Fragment c) = Fragment c"
| "with_result r (DashboardBasicFeature org (OrgDashboards lp cb)) = DashboardBasicFeature org (cb r)"

fun loaders ::
  "('children, 'org, ('props, 'cb) OrgDashboards_element) container_element \<Rightarrow> 'props list" where
  "loaders (Fragment c) = []"
| "loaders (DashboardBasicFeature org (OrgDashboards lp cb)) = [lp]"

section \<open>Properties of the icon selector\<close>

lemma case_labels_iff: "t \<in> set case_labels \<longleftrightarrow> (\<forall>v. t \<noteq> UNLISTED v)"
  by (cases t) (simp_all add: case_labels_def)

text \<open>
  C1, as the spec states it, fails: \<open>USER\<close> and \<open>UI\<close> are two distinct defined category
  values, and the selector returns the same glyph token for both.
\<close>

theorem Icon_not_distinct_counterexample:
  "USER \<in> set case_labels \<and> UI \<in> set case_labels \<and> USER \<noteq> UI \<and> Icon USER = Icon UI"
  by (simp add: case_labels_def Icon_def)

text \<open>
  C1 (amended): for every defined breadcrumb category value the selector returns the
  glyph token of the fixed table below, and two distinct defined category values map to
  the same glyph token only when they are \<open>USER\<close> and \<open>UI\<close>, which both map to
  \<open>IconUser\<close>.
\<close>

theorem Icon_table_distinct_up_to_USER_UI:
  "Icon USER = IconElement IconUser ''xs'' \<and>
   Icon UI = IconElement IconUser ''xs'' \<and>
   Icon NAVIGATION = IconElement IconLocation ''xs'' \<and>
   Icon DEBUG = IconElement IconFix ''xs'' \<and>
   Icon INFO = IconElement IconInfo ''xs'' \<and>
   Icon ERROR = IconElement IconFire ''xs'' \<and>
   Icon HTTP = IconElement IconSwitch ''xs'' \<and>
   Icon WARNING = IconElement IconWarning ''xs'' \<and>
   Icon QUERY = IconElement IconStack ''xs'' \<and>
   Icon SYSTEM = IconElement IconMobile ''xs'' \<and>
   Icon SESSION = IconElement IconRefresh ''xs'' \<and>
   Icon TRANSACTION = IconElement IconSpan ''xs'' \<and>
   (\<forall>a b. a \<in> set case_labels \<longrightarrow> b \<in> set case_labels \<longrightarrow> a \<noteq> b \<longrightarrow>
      Icon a = Icon b \<longrightarrow> {a, b} = {USER, UI})"
proof -
  have table: "Icon USER = IconElement IconUser ''xs''"
    "Icon UI = IconElement IconUser ''xs''"
    "Icon NAVIGATION = IconElement IconLocation ''xs''"
    "Icon DEBUG = IconElement IconFix ''xs''"
    "Icon INFO = IconElement IconInfo ''xs''"
    "Icon ERROR = IconElement IconFire ''xs''"
    "Icon HTTP = IconElement IconSwitch ''xs''"
    "Icon WARNING = IconElement IconWarning ''xs''"
    "Icon QUERY = IconElement IconStack ''xs''"
    "Icon SYSTEM = IconElement IconMobile ''xs''"
    "Icon SESSION = IconElement IconRefresh ''xs''"
    "Icon TRANSACTION = IconElement IconSpan ''xs''"
    by (simp_all add: Icon_def)
  have collide: "{a, b} = {USER, UI}"
    if "a \<in> set case_labels" "b \<in> set case_labels" "a \<noteq> b" "Icon a = Icon b" for a b
  proof (cases a)
    case USER
    with that show ?thesis by (cases b) (simp_all add: Icon_def)
  next
    case UI
    with that show ?thesis by (cases b) (auto simp: Icon_def)
  next
    case (UNLISTED v)
    with that(1) show ?thesis by (simp add: case_labels_iff)
  qed (use that in \<open>cases b; simp add: Icon_def\<close>)+
  from table collide show ?thesis by blast
qed

theorem Icon_table_distinct_up_to_USER_UI_witness:
  "USER \<in> set case_labels \<and> UI \<in> set case_labels \<and> USER \<noteq> UI \<and> Icon USER = Icon UI \<and>
   {USER, UI} = {USER, UI} \<and>
   Icon NAVIGATION \<noteq> Icon DEBUG"
proof -
  have h: "USER \<in> set case_labels" "UI \<in> set case_labels" "USER \<noteq> UI" "Icon USER = Icon UI"
    "NAVIGATION \<in> set case_labels" "DEBUG \<in> set case_labels" "NAVIGATION \<noteq> DEBUG"
    by (simp_all add: case_labels_def Icon_def)
  have "{NAVIGATION, DEBUG} \<noteq> {USER, UI}" by auto
  with h Icon_table_distinct_up_to_USER_UI show ?thesis by blast
qed

text \<open>
  C7: the selector is a total function. Every input, also one that is not a defined
  category value, yields exactly one element, an icon of size \<open>xs\<close>; every input that
  is not a defined category value yields the default glyph \<open>IconTerminal\<close>; equal inputs
  yield equal outputs.
\<close>

theorem Icon_total_with_default:
  "(\<exists>!e. Icon t = e) \<and>
   (\<exists>g. Icon t = IconElement g ''xs'') \<and>
   (t \<notin> set case_labels \<longrightarrow> Icon t = IconElement IconTerminal ''xs'') \<and>
   (t = t' \<longrightarrow> Icon t = Icon t')"
  by (cases t) (simp_all add: Icon_def case_labels_def)

theorem Icon_total_with_default_witness:
  "UNLISTED ''future'' \<notin> set case_labels \<and>
   Icon (UNLISTED ''future'') = IconElement IconTerminal ''xs''"
  using Icon_total_with_default [of "UNLISTED ''future''" "UNLISTED ''future''"]
  by (simp add: case_labels_def)


section \<open>Properties of the organization accessor\<close>

text \<open>
  C6: the accessor throws exactly when the ambient context holds no organization, and
  the error carries the descriptive message; when the context holds an organization,
  the accessor returns that organization unchanged.
\<close>

theorem useOrganization_throws_iff_unset:
  "((\<exists>e. useOrganization ctx = Inl e) \<longleftrightarrow> ctx = None) \<and>
   (ctx = None \<longrightarrow>
      useOrganization ctx = Inl (Error ''useOrganization called but organization is not set.'')) \<and>
   (\<forall>organization. ctx = Some organization \<longrightarrow> useOrganization ctx = Inr organization)"
  by (cases ctx) (simp_all add: useOrganization_def)

theorem useOrganization_throws_iff_unset_witness:
  "useOrganization (Some \<lparr>slug = ''acme'', features = []\<rparr>)
     = Inr \<lparr>slug = ''acme'', features = []\<rparr> \<and>
   useOrganization (None :: Organization option)
     = Inl (Error ''useOrganization called but organization is not set.'')"
  using useOrganization_throws_iff_unset [of "Some \<lparr>slug = ''acme'', features = []\<rparr>"]
    useOrganization_throws_iff_unset [of "None :: Organization option"]
  by simp

text \<open>
  C9: \<open>useOrgSlug\<close> is the base accessor followed by the projection of the \<open>slug\<close>
  field; when the ambient context holds an organization whose slug is \<open>acme\<close>, it
  returns \<open>acme\<close>.
\<close>

theorem useOrgSlug_is_slug_of_useOrganization:
  "useOrgSlug ctx = map_sum id slug (useOrganization ctx) \<and>
   (\<forall>organization. ctx = Some organization \<longrightarrow> slug organization = ''acme'' \<longrightarrow>
      useOrgSlug ctx = Inr ''acme'')"
  by (cases ctx) (simp_all add: useOrgSlug_def useOrganization_def)

theorem useOrgSlug_is_slug_of_useOrganization_witness:
  "slug \<lparr>slug = ''acme'', features = []\<rparr> = ''acme'' \<and>
   useOrgSlug (Some \<lparr>slug = ''acme'', features = []\<rparr>) = Inr ''acme''"
proof -
  let ?org = "\<lparr>slug = ''acme'', features = []\<rparr>"
  have h: "slug ?org = ''acme''" by simp
  from useOrgSlug_is_slug_of_useOrganization [of "Some ?org"]
  have "\<forall>organization. Some ?org = Some organization \<longrightarrow> slug organization = ''acme'' \<longrightarrow>
      useOrgSlug (Some ?org) = Inr ''acme''"
    by (rule conjunct2)
  with h show ?thesis by blast
qed

text \<open>
  C10: when the ambient context holds no organization, \<open>useOrgSlug\<close> throws the base
  accessor's error; it returns no value at all, so neither \<open>null\<close> nor \<open>undefined\<close>.
\<close>

theorem useOrgSlug_throws_when_unset:
  "useOrganization None = Inl (Error ''useOrganization called but organization is not set.'') \<and>
   useOrgSlug None = Inl (Error ''useOrganization called but organization is not set.'') \<and>
   (\<forall>v. useOrgSlug None \<noteq> Inr v)"
  by (simp add: useOrgSlug_def useOrganization_def)


section \<open>Properties of the transaction tree row\<close>

lemma toggleExpandedState_state:
  "TransactionGroup_State.isExpanded (state (toggleExpandedState this))
     = (\<not> TransactionGroup_State.isExpanded (state this))"
  by (simp add: toggleExpandedState_def setState_def)

lemma toggleExpandedState_props: "props (toggleExpandedState this) = props this"
  by (simp add: toggleExpandedState_def setState_def)

lemma toggleExpandedState_twice: "toggleExpandedState (toggleExpandedState this) = this"
  by (simp add: toggleExpandedState_def setState_def)

lemma call_changes_state_iff:
  "(state (fst (call m this)) \<noteq> state this) = (m = ToggleExpandedState)"
proof (cases m)
  case ToggleExpandedState
  have "TransactionGroup_State.isExpanded (state (toggleExpandedState this))
          \<noteq> TransactionGroup_State.isExpanded (state this)"
    by (simp add: toggleExpandedState_state)
  then have "state (toggleExpandedState this) \<noteq> state this" by auto
  with ToggleExpandedState show ?thesis by simp
next
  case Render
  then show ?thesis by simp
qed

text \<open>
  C2: the expansion state has exactly two values; a new row is expanded; the toggle
  flips the state whatever it is and touches nothing else, so two toggles restore the
  instance; of the members of the class, only the toggle changes the state.
\<close>

theorem expansion_state_machine:
  "state (new_TransactionGroup p) = \<lparr>TransactionGroup_State.isExpanded = True\<rparr> \<and>
   (\<forall>s :: TransactionGroup_State.
      s = \<lparr>TransactionGroup_State.isExpanded = True\<rparr> \<or>
      s = \<lparr>TransactionGroup_State.isExpanded = False\<rparr>) \<and>
   TransactionGroup_State.isExpanded (state (toggleExpandedState this))
     = (\<not> TransactionGroup_State.isExpanded (state this)) \<and>
   props (toggleExpandedState this) = props this \<and>
   toggleExpandedState (toggleExpandedState this) = this \<and>
   ((state (fst (call m this)) \<noteq> state this) = (m = ToggleExpandedState))"
proof -
  have two: "s = \<lparr>TransactionGroup_State.isExpanded = True\<rparr> \<or>
      s = \<lparr>TransactionGroup_State.isExpanded = False\<rparr>" for s :: TransactionGroup_State
    by (cases s) auto
  show ?thesis
    using two toggleExpandedState_state [of this] toggleExpandedState_props [of this]
      toggleExpandedState_twice [of this] call_changes_state_iff [of m this]
    by (simp add: new_TransactionGroup_def)
qed

theorem expansion_state_machine_witness:
  "(let row = new_TransactionGroup
       \<lparr>TransactionGroup_Props.location = (),
        TransactionGroup_Props.organization = \<lparr>slug = ''acme'', features = []\<rparr>,
        TransactionGroup_Props.transaction = (), TransactionGroup_Props.traceInfo = (),
        TransactionGroup_Props.continuingDepths = [] :: unit list,
        TransactionGroup_Props.isOrphan = False, TransactionGroup_Props.isLast = True,
        TransactionGroup_Props.index = 0, TransactionGroup_Props.isVisible = True,
        renderedChildren = [''A'', ''B''], TransactionGroup_Props.barColour = None\<rparr>
    in TransactionGroup_State.isExpanded (state row) \<and>
       \<not> TransactionGroup_State.isExpanded (state (toggleExpandedState row)) \<and>
       toggleExpandedState (toggleExpandedState row) = row \<and>
       state (fst (call Render row)) = state row \<and>
       state (fst (call ToggleExpandedState row)) \<noteq> state row)"
proof -
  let ?p = "\<lparr>TransactionGroup_Props.location = (),
        TransactionGroup_Props.organization = \<lparr>slug = ''acme'', features = []\<rparr>,
        TransactionGroup_Props.transaction = (), TransactionGroup_Props.traceInfo = (),
        TransactionGroup_Props.continuingDepths = [] :: unit list,
        TransactionGroup_Props.isOrphan = False, TransactionGroup_Props.isLast = True,
        TransactionGroup_Props.index = 0, TransactionGroup_Props.isVisible = True,
        renderedChildren = [''A'', ''B''], TransactionGroup_Props.barColour = None\<rparr>"
  let ?row = "new_TransactionGroup ?p"
  note machine = expansion_state_machine [of ?p ?row]
  from machine [of Render] have initial: "TransactionGroup_State.isExpanded (state ?row)"
    by simp
  from machine [of Render] initial
  have flipped: "\<not> TransactionGroup_State.isExpanded (state (toggleExpandedState ?row))"
    by blast
  from machine [of Render] have twice: "toggleExpandedState (toggleExpandedState ?row) = ?row"
    by blast
  from machine [of Render] have keeps: "state (fst (call Render ?row)) = state ?row"
    by blast
  from machine [of ToggleExpandedState]
  have changes: "state (fst (call ToggleExpandedState ?row)) \<noteq> state ?row"
    by blast
  from initial flipped twice keeps changes show ?thesis
    unfolding Let_def by blast
qed

lemma render_slots:
  "\<exists>bar slot. render this = React_Fragment [TransactionBar bar, slot] \<and>
     bar = \<lparr>TransactionBar_Props.location = TransactionGroup_Props.location (props this),
            TransactionBar_Props.organization = TransactionGroup_Props.organization (props this),
            TransactionBar_Props.index = TransactionGroup_Props.index (props this),
            TransactionBar_Props.transaction = TransactionGroup_Props.transaction (props this),
            TransactionBar_Props.traceInfo = TransactionGroup_Props.traceInfo (props this),
            TransactionBar_Props.continuingDepths =
              TransactionGroup_Props.continuingDepths (props this),
            TransactionBar_Props.isOrphan = TransactionGroup_Props.isOrphan (props this),
            TransactionBar_Props.isLast = TransactionGroup_Props.isLast (props this),
            TransactionBar_Props.isExpanded = TransactionGroup_State.isExpanded (state this),
            TransactionBar_Props.toggleExpandedState = toggleExpandedState,
            TransactionBar_Props.isVisible = TransactionGroup_Props.isVisible (props this),
            TransactionBar_Props.barColour = TransactionGroup_Props.barColour (props this)\<rparr> \<and>
     slot = (if TransactionGroup_State.isExpanded (state this)
             then Nodes (renderedChildren (props this)) else Boolean False)"
  by (simp add: render_def Let_def)

text \<open>
  C3: whatever the props and the expansion state, the fragment \<open>render\<close> returns starts
  with the row's bar, which receives the props' values, the current expansion state
  and the toggle callback. When the state is expanded the fragment's other child is the
  caller's \<open>renderedChildren\<close>, displayed after the bar; when it is collapsed the other
  child is \<open>false\<close> and the bar alone is displayed.
\<close>

theorem render_bar_and_gated_children:
  "\<exists>bar slot.
     render this = React_Fragment [TransactionBar bar, slot] \<and>
     TransactionBar_Props.location bar = TransactionGroup_Props.location (props this) \<and>
     TransactionBar_Props.organization bar = TransactionGroup_Props.organization (props this) \<and>
     TransactionBar_Props.index bar = TransactionGroup_Props.index (props this) \<and>
     TransactionBar_Props.transaction bar = TransactionGroup_Props.transaction (props this) \<and>
     TransactionBar_Props.traceInfo bar = TransactionGroup_Props.traceInfo (props this) \<and>
     TransactionBar_Props.continuingDepths bar
       = TransactionGroup_Props.continuingDepths (props this) \<and>
     TransactionBar_Props.isOrphan bar = TransactionGroup_Props.isOrphan (props this) \<and>
     TransactionBar_Props.isLast bar = TransactionGroup_Props.isLast (props this) \<and>
     TransactionBar_Props.isExpanded bar = TransactionGroup_State.isExpanded (state this) \<and>
     TransactionBar_Props.toggleExpandedState bar = toggleExpandedState \<and>
     TransactionBar_Props.isVisible bar = TransactionGroup_Props.isVisible (props this) \<and>
     TransactionBar_Props.barColour bar = TransactionGroup_Props.barColour (props this) \<and>
     (TransactionGroup_State.isExpanded (state this) \<longrightarrow>
        slot = Nodes (renderedChildren (props this)) \<and>
        display (render this) = Bar bar # map Child (renderedChildren (props this))) \<and>
     (\<not> TransactionGroup_State.isExpanded (state this) \<longrightarrow>
        slot = Boolean False \<and> display (render this) = [Bar bar]) \<and>
     (slot = Nodes (renderedChildren (props this)))
       = TransactionGroup_State.isExpanded (state this)"
proof -
  from render_slots [of this] obtain bar slot where
    r: "render this = React_Fragment [TransactionBar bar, slot]" and
    bar: "bar = \<lparr>TransactionBar_Props.location = TransactionGroup_Props.location (props this),
            TransactionBar_Props.organization = TransactionGroup_Props.organization (props this),
            TransactionBar_Props.index = TransactionGroup_Props.index (props this),
            TransactionBar_Props.transaction = TransactionGroup_Props.transaction (props this),
            TransactionBar_Props.traceInfo = TransactionGroup_Props.traceInfo (props this),
            TransactionBar_Props.continuingDepths =
              TransactionGroup_Props.continuingDepths (props this),
            TransactionBar_Props.isOrphan = TransactionGroup_Props.isOrphan (props this),
            TransactionBar_Props.isLast = TransactionGroup_Props.isLast (props this),
            TransactionBar_Props.isExpanded = TransactionGroup_State.isExpanded (state this),
            TransactionBar_Props.toggleExpandedState = toggleExpandedState,
            TransactionBar_Props.isVisible = TransactionGroup_Props.isVisible (props this),
            TransactionBar_Props.barColour = TransactionGroup_Props.barColour (props this)\<rparr>" and
    slot: "slot = (if TransactionGroup_State.isExpanded (state this)
             then Nodes (renderedChildren (props this)) else Boolean False)"
    by blast
  have shown: "display (render this) = Bar bar # display_node slot"
    by (simp add: r)
  show ?thesis
    apply (rule exI [of _ bar], rule exI [of _ slot])
    apply (simp only: shown)
    apply (simp add: r)
    apply (simp add: bar slot)
    done
qed

theorem render_bar_and_gated_children_witness:
  "(let row = new_TransactionGroup
       \<lparr>TransactionGroup_Props.location = (),
        TransactionGroup_Props.organization = \<lparr>slug = ''acme'', features = []\<rparr>,
        TransactionGroup_Props.transaction = (), TransactionGroup_Props.traceInfo = (),
        TransactionGroup_Props.continuingDepths = [] :: unit list,
        TransactionGroup_Props.isOrphan = False, TransactionGroup_Props.isLast = True,
        TransactionGroup_Props.index = 0, TransactionGroup_Props.isVisible = True,
        renderedChildren = [''A'', ''B''], TransactionGroup_Props.barColour = None\<rparr>
    in TransactionGroup_State.isExpanded (state row) \<and>
       (\<exists>bar. display (render row) = [Bar bar, Child ''A'', Child ''B'']) \<and>
       \<not> TransactionGroup_State.isExpanded (state (toggleExpandedState row)) \<and>
       (\<exists>bar. display (render (toggleExpandedState row)) = [Bar bar]))"
proof -
  let ?p = "\<lparr>TransactionGroup_Props.location = (),
        TransactionGroup_Props.organization = \<lparr>slug = ''acme'', features = []\<rparr>,
        TransactionGroup_Props.transaction = (), TransactionGroup_Props.traceInfo = (),
        TransactionGroup_Props.continuingDepths = [] :: unit list,
        TransactionGroup_Props.isOrphan = False, TransactionGroup_Props.isLast = True,
        TransactionGroup_Props.index = 0, TransactionGroup_Props.isVisible = True,
        renderedChildren = [''A'', ''B''], TransactionGroup_Props.barColour = None\<rparr>"
  let ?row = "new_TransactionGroup ?p"
  have expanded: "TransactionGroup_State.isExpanded (state ?row)"
    by (simp add: new_TransactionGroup_def)
  have children: "renderedChildren (props ?row) = [''A'', ''B'']"
    by (simp add: new_TransactionGroup_def)
  have collapsed: "\<not> TransactionGroup_State.isExpanded (state (toggleExpandedState ?row))"
    by (simp add: new_TransactionGroup_def toggleExpandedState_def setState_def)
  from render_bar_and_gated_children [of ?row] expanded children
  have one: "\<exists>bar. display (render ?row) = [Bar bar, Child ''A'', Child ''B'']"
    by auto
  from render_bar_and_gated_children [of "toggleExpandedState ?row"] collapsed
  have two: "\<exists>bar. display (render (toggleExpandedState ?row)) = [Bar bar]"
    by auto
  from expanded one collapsed two show ?thesis
    unfolding Let_def by blast
qed

lemma fold_frame:
  "(\<And>c h. c \<in> set cs \<Longrightarrow> f c h k = h k) \<Longrightarrow> fold f cs h k = h k"
  by (induction cs arbitrary: h) simp_all

lemma unmount_frame: "k \<notin> set (row_keys r) \<Longrightarrow> unmount r h k = h k"
proof (induction r arbitrary: h)
  case (Row k' p cs)
  have "fold unmount cs h k = h k"
  proof (rule fold_frame)
    fix c h' assume "c \<in> set cs"
    with Row show "unmount c h' k = h' k" by auto
  qed
  with Row.prems show ?case by simp
qed

lemma mount_frame: "k \<notin> set (row_keys r) \<Longrightarrow> mount r h k = h k"
proof (induction r arbitrary: h)
  case (Row k' p cs)
  let ?f = "\<lambda>c. if shows_row (new_TransactionGroup p) c then mount c else id"
  have "fold ?f cs (h(k' \<mapsto> new_TransactionGroup p)) k = (h(k' \<mapsto> new_TransactionGroup p)) k"
  proof (rule fold_frame)
    fix c h' assume "c \<in> set cs"
    with Row show "?f c h' k = h' k" by auto
  qed
  with Row.prems show ?case by simp
qed

lemma reconcile_frame:
  "k \<notin> set (concat (map row_keys cs)) \<Longrightarrow> reconcile this cs h k = h k"
  unfolding reconcile_def
  by (rule fold_frame) (auto simp: mount_frame unmount_frame)

lemma invoke_toggle_frame: "b \<notin> set (row_keys r) \<Longrightarrow> invoke_toggle r h b = h b"
  by (cases r) (simp add: reconcile_frame split: option.split)

lemma invoke_toggle_self:
  "distinct (row_keys r) \<Longrightarrow> h (row_key r) = Some this \<Longrightarrow>
     invoke_toggle r h (row_key r) = Some (toggleExpandedState this)"
  by (cases r) (simp add: reconcile_frame)

lemma child_nodes_map_Child: "child_nodes (map Child ns) = ns"
  by (induction ns) simp_all

lemma shows_row_iff:
  "shows_row this c \<longleftrightarrow>
     TransactionGroup_State.isExpanded (state this) \<and>
     row_key c \<in> set (renderedChildren (props this))"
  by (simp add: shows_row_def render_def Let_def child_nodes_map_Child)

text \<open>
  A row nested in another is not independent of it: collapsing the outer row unmounts
  the nested row, and expanding the outer row again mounts the nested row anew, expanded,
  whatever its state was before.
\<close>

lemma nested_row_is_mounted_anew:
  "(let P = (\<lambda>cs :: nat list. \<lparr>TransactionGroup_Props.location = (),
                   TransactionGroup_Props.organization = \<lparr>slug = ''acme'', features = []\<rparr>,
                   TransactionGroup_Props.transaction = (),
                   TransactionGroup_Props.traceInfo = (),
                   TransactionGroup_Props.continuingDepths = [] :: unit list,
                   TransactionGroup_Props.isOrphan = False,
                   TransactionGroup_Props.isLast = True,
                   TransactionGroup_Props.index = 0,
                   TransactionGroup_Props.isVisible = True,
                   renderedChildren = cs,
                   TransactionGroup_Props.barColour = None\<rparr>);
        inner = Row 2 (P []) [];
        outer = Row 0 (P [2]) [inner];
        h1 = invoke_toggle inner (mount outer Map.empty);
        h2 = invoke_toggle outer h1;
        h3 = invoke_toggle outer h2
    in map_option (\<lambda>this. TransactionGroup_State.isExpanded (state this)) (h1 2) = Some False \<and>
       h2 2 = None \<and>
       map_option (\<lambda>this. TransactionGroup_State.isExpanded (state this)) (h3 2) = Some True)"
  by (simp add: Let_def shows_row_iff reconcile_def new_TransactionGroup_def
      toggleExpandedState_def setState_def)

text \<open>
  C8: the expansion state belongs to one row instance. Invoking the toggle callback of
  a mounted row flips that row's own state, and leaves every row that is not the row
  itself or nested in it (a sibling, an ancestor, a row of another tree) as it was: the
  same instance, the same expansion state, the same displayed bar and children.
\<close>

theorem toggle_leaves_rows_outside_unchanged:
  "b \<notin> set (row_keys r) \<Longrightarrow>
     invoke_toggle r h b = h b \<and>
     map_option (\<lambda>this. TransactionGroup_State.isExpanded (state this)) (invoke_toggle r h b)
       = map_option (\<lambda>this. TransactionGroup_State.isExpanded (state this)) (h b) \<and>
     map_option (\<lambda>this. display (render this)) (invoke_toggle r h b)
       = map_option (\<lambda>this. display (render this)) (h b) \<and>
     (\<forall>this. distinct (row_keys r) \<longrightarrow> h (row_key r) = Some this \<longrightarrow>
        map_option (\<lambda>this. TransactionGroup_State.isExpanded (state this))
            (invoke_toggle r h (row_key r))
          = Some (\<not> TransactionGroup_State.isExpanded (state this)))"
proof -
  assume "b \<notin> set (row_keys r)"
  then have other: "invoke_toggle r h b = h b"
    by (rule invoke_toggle_frame)
  have self: "map_option (\<lambda>this. TransactionGroup_State.isExpanded (state this))
            (invoke_toggle r h (row_key r))
          = Some (\<not> TransactionGroup_State.isExpanded (state this))"
    if "distinct (row_keys r)" "h (row_key r) = Some this" for this
    using that invoke_toggle_self [of r h this]
    by (simp add: toggleExpandedState_def setState_def)
  from other self show ?thesis by simp
qed

theorem toggle_leaves_rows_outside_unchanged_witness:
  "(let P = (\<lambda>cs :: nat list. \<lparr>TransactionGroup_Props.location = (),
                   TransactionGroup_Props.organization = \<lparr>slug = ''acme'', features = []\<rparr>,
                   TransactionGroup_Props.transaction = (),
                   TransactionGroup_Props.traceInfo = (),
                   TransactionGroup_Props.continuingDepths = [] :: unit list,
                   TransactionGroup_Props.isOrphan = False,
                   TransactionGroup_Props.isLast = True,
                   TransactionGroup_Props.index = 0,
                   TransactionGroup_Props.isVisible = True,
                   renderedChildren = cs,
                   TransactionGroup_Props.barColour = None\<rparr>);
        first = Row 0 (P [2]) [Row 2 (P []) []];
        second = Row 1 (P []) [];
        h = mount second (mount first Map.empty)
    in 1 \<notin> set (row_keys first) \<and> distinct (row_keys first) \<and>
       h (row_key first) = Some (new_TransactionGroup (P [2])) \<and>
       h 1 = Some (new_TransactionGroup (P [])) \<and>
       invoke_toggle first h 1 = Some (new_TransactionGroup (P [])) \<and>
       map_option (\<lambda>this. TransactionGroup_State.isExpanded (state this))
         (invoke_toggle first h 0) = Some False)"
proof -
  let ?P = "\<lambda>cs :: nat list. \<lparr>TransactionGroup_Props.location = (),
                   TransactionGroup_Props.organization = \<lparr>slug = ''acme'', features = []\<rparr>,
                   TransactionGroup_Props.transaction = (),
                   TransactionGroup_Props.traceInfo = (),
                   TransactionGroup_Props.continuingDepths = [] :: unit list,
                   TransactionGroup_Props.isOrphan = False,
                   TransactionGroup_Props.isLast = True,
                   TransactionGroup_Props.index = 0,
                   TransactionGroup_Props.isVisible = True,
                   renderedChildren = cs,
                   TransactionGroup_Props.barColour = None\<rparr>"
  let ?first = "Row 0 (?P [2]) [Row 2 (?P []) []]"
  let ?second = "Row 1 (?P []) []"
  let ?h = "mount ?second (mount ?first Map.empty)"
  have outside: "1 \<notin> set (row_keys ?first)" and keys: "distinct (row_keys ?first)"
    by simp_all
  have at0: "?h (row_key ?first) = Some (new_TransactionGroup (?P [2]))"
    and at1: "?h 1 = Some (new_TransactionGroup (?P []))"
    by (simp_all add: shows_row_iff new_TransactionGroup_def)
  note local = toggle_leaves_rows_outside_unchanged [OF outside, of ?h]
  have "invoke_toggle ?first ?h 1 = ?h 1"
    by (rule local [THEN conjunct1])
  with at1 have other: "invoke_toggle ?first ?h 1 = Some (new_TransactionGroup (?P []))"
    by (simp only:)
  have "map_option (\<lambda>this. TransactionGroup_State.isExpanded (state this))
          (invoke_toggle ?first ?h (row_key ?first))
        = Some (\<not> TransactionGroup_State.isExpanded (state (new_TransactionGroup (?P [2]))))"
    by (rule local [THEN conjunct2, THEN conjunct2, THEN conjunct2, rule_format, OF keys at0])
  then have self: "map_option (\<lambda>this. TransactionGroup_State.isExpanded (state this))
         (invoke_toggle ?first ?h 0) = Some False"
    by (simp add: new_TransactionGroup_def)
  show ?thesis
    unfolding Let_def
    by (intro conjI outside keys at0 at1 other self)
qed


section \<open>Properties of the dashboard route container\<close>

lemma render_prop_cases:
  "(truthy_flag (error r) \<longrightarrow> render_prop p r = NotFound) \<and>
   (\<forall>d. \<not> truthy_flag (error r) \<longrightarrow> OrgDashboards_Result.dashboard r = Some d \<longrightarrow>
      render_prop p r =
        DashboardDetail
          \<lparr>spread = p, initialState = VIEW, DashboardDetail_Props.dashboard = d,
           DashboardDetail_Props.dashboards = OrgDashboards_Result.dashboards r,
           DashboardDetail_Props.reloadData = OrgDashboards_Result.reloadData r\<rparr>) \<and>
   (\<not> truthy_flag (error r) \<longrightarrow> OrgDashboards_Result.dashboard r = None \<longrightarrow>
      render_prop p r = LoadingIndicator)"
  by (simp add: render_prop_def)

text \<open>
  C4: when the organization's features do not include \<open>dashboards-edit\<close>, the container
  mounts the loader with its own api, location, params and organization, and what is
  rendered for a loader result is decided in this order: the not-found indicator when
  the error flag is set (also when a dashboard is present); otherwise, when a dashboard
  is present, the detail view with the container's props, \<open>initialState = VIEW\<close>, the
  dashboard, the dashboards list and the \<open>reloadData\<close> callback; otherwise the loading
  indicator.
\<close>

theorem container_renders_loader_result:
  fixes r :: "('dashboard, 'dashboards, 'reload) OrgDashboards_Result"
  shows "''dashboards-edit'' \<notin> set (features (DashboardsV2_Props.organization p)) \<Longrightarrow>
     loaders (DashboardsV2Container p ::
          (_, _, (_, ('dashboard, 'dashboards, 'reload) OrgDashboards_Result \<Rightarrow> _)
             OrgDashboards_element) container_element) =
       [\<lparr>OrgDashboards_Props.api = DashboardsV2_Props.api p,
         OrgDashboards_Props.location = DashboardsV2_Props.location p,
         OrgDashboards_Props.params = DashboardsV2_Props.params p,
         OrgDashboards_Props.organization = DashboardsV2_Props.organization p\<rparr>] \<and>
     (truthy_flag (error r) \<longrightarrow>
        with_result r (DashboardsV2Container p)
          = DashboardBasicFeature (DashboardsV2_Props.organization p) NotFound) \<and>
     (\<forall>d. \<not> truthy_flag (error r) \<longrightarrow> OrgDashboards_Result.dashboard r = Some d \<longrightarrow>
        with_result r (DashboardsV2Container p)
          = DashboardBasicFeature (DashboardsV2_Props.organization p)
              (DashboardDetail
                 \<lparr>spread = p, initialState = VIEW, DashboardDetail_Props.dashboard = d,
                  DashboardDetail_Props.dashboards = OrgDashboards_Result.dashboards r,
                  DashboardDetail_Props.reloadData = OrgDashboards_Result.reloadData r\<rparr>)) \<and>
     (\<not> truthy_flag (error r) \<longrightarrow> OrgDashboards_Result.dashboard r = None \<longrightarrow>
        with_result r (DashboardsV2Container p)
          = DashboardBasicFeature (DashboardsV2_Props.organization p) LoadingIndicator)"
  using render_prop_cases [of r p]
  by (simp add: DashboardsV2Container_def)

theorem container_renders_loader_result_witness:
  "(let p = \<lparr>DashboardsV2_Props.organization = \<lparr>slug = ''acme'', features = [''discover'']\<rparr>,
             DashboardsV2_Props.params = ''acme'', DashboardsV2_Props.api = (),
             DashboardsV2_Props.location = (), children = ''children''\<rparr>;
        failed = \<lparr>OrgDashboards_Result.dashboard = Some ''D'',
                  OrgDashboards_Result.dashboards = [''D''], error = Some True,
                  OrgDashboards_Result.reloadData = ()\<rparr>;
        loaded = \<lparr>OrgDashboards_Result.dashboard = Some ''D'',
                  OrgDashboards_Result.dashboards = [''D''], error = None,
                  OrgDashboards_Result.reloadData = ()\<rparr>;
        loading = \<lparr>OrgDashboards_Result.dashboard = None :: string option,
                   OrgDashboards_Result.dashboards = [] :: string list, error = None,
                   OrgDashboards_Result.reloadData = ()\<rparr>
    in ''dashboards-edit'' \<notin> set (features (DashboardsV2_Props.organization p)) \<and>
       with_result failed (DashboardsV2Container p)
         = DashboardBasicFeature (DashboardsV2_Props.organization p) NotFound \<and>
       with_result loaded (DashboardsV2Container p)
         = DashboardBasicFeature (DashboardsV2_Props.organization p)
             (DashboardDetail
                \<lparr>spread = p, initialState = VIEW, DashboardDetail_Props.dashboard = ''D'',
                 DashboardDetail_Props.dashboards = [''D''],
                 DashboardDetail_Props.reloadData = ()\<rparr>) \<and>
       with_result loading (DashboardsV2Container p)
         = DashboardBasicFeature (DashboardsV2_Props.organization p) LoadingIndicator)"
proof -
  let ?p = "\<lparr>DashboardsV2_Props.organization = \<lparr>slug = ''acme'', features = [''discover'']\<rparr>,
             DashboardsV2_Props.params = ''acme'', DashboardsV2_Props.api = (),
             DashboardsV2_Props.location = (), children = ''children''\<rparr>"
  let ?failed = "\<lparr>OrgDashboards_Result.dashboard = Some ''D'',
                  OrgDashboards_Result.dashboards = [''D''], error = Some True,
                  OrgDashboards_Result.reloadData = ()\<rparr>"
  let ?loaded = "\<lparr>OrgDashboards_Result.dashboard = Some ''D'',
                  OrgDashboards_Result.dashboards = [''D''], error = None,
                  OrgDashboards_Result.reloadData = ()\<rparr>"
  let ?loading = "\<lparr>OrgDashboards_Result.dashboard = None :: string option,
                   OrgDashboards_Result.dashboards = [] :: string list, error = None,
                   OrgDashboards_Result.reloadData = ()\<rparr>"
  have h: "''dashboards-edit'' \<notin> set (features (DashboardsV2_Props.organization ?p))"
    by simp
  from container_renders_loader_result [OF h, of ?failed]
  have one: "with_result ?failed (DashboardsV2Container ?p)
         = DashboardBasicFeature (DashboardsV2_Props.organization ?p) NotFound"
    by (simp add: truthy_flag_def)
  from container_renders_loader_result [OF h, of ?loaded]
  have two: "with_result ?loaded (DashboardsV2Container ?p)
         = DashboardBasicFeature (DashboardsV2_Props.organization ?p)
             (DashboardDetail
                \<lparr>spread = ?p, initialState = VIEW, DashboardDetail_Props.dashboard = ''D'',
                 DashboardDetail_Props.dashboards = [''D''],
                 DashboardDetail_Props.reloadData = ()\<rparr>)"
    by (simp add: truthy_flag_def)
  from container_renders_loader_result [OF h, of ?loading]
  have three: "with_result ?loading (DashboardsV2Container ?p)
         = DashboardBasicFeature (DashboardsV2_Props.organization ?p) LoadingIndicator"
    by (simp add: truthy_flag_def)
  from h one two three show ?thesis
    unfolding Let_def by blast
qed

text \<open>
  C5: when the organization's features include \<open>dashboards-edit\<close>, the container
  returns its children in a fragment and nothing else: it mounts no loader, and no
  loader result changes what is rendered.
\<close>

theorem container_passes_children_through:
  "''dashboards-edit'' \<in> set (features (DashboardsV2_Props.organization p)) \<Longrightarrow>
     (DashboardsV2Container p ::
          (_, _, (_, ('dashboard, 'dashboards, 'reload) OrgDashboards_Result \<Rightarrow> _)
             OrgDashboards_element) container_element) = Fragment (children p) \<and>
     loaders (DashboardsV2Container p ::
          (_, _, (_, ('dashboard, 'dashboards, 'reload) OrgDashboards_Result \<Rightarrow> _)
             OrgDashboards_element) container_element) = [] \<and>
     (\<forall>r :: ('dashboard, 'dashboards, 'reload) OrgDashboards_Result.
        with_result r (DashboardsV2Container p) = Fragment (children p))"
  by (simp add: DashboardsV2Container_def)

theorem container_passes_children_through_witness:
  "(let p = \<lparr>DashboardsV2_Props.organization =
               \<lparr>slug = ''acme'', features = [''discover'', ''dashboards-edit'']\<rparr>,
             DashboardsV2_Props.params = ''acme'', DashboardsV2_Props.api = (),
             DashboardsV2_Props.location = (), children = ''children''\<rparr>;
        failed = \<lparr>OrgDashboards_Result.dashboard = Some ''D'',
                  OrgDashboards_Result.dashboards = [''D''], error = Some True,
                  OrgDashboards_Result.reloadData = ()\<rparr>
    in ''dashboards-edit'' \<in> set (features (DashboardsV2_Props.organization p)) \<and>
       with_result failed (DashboardsV2Container p) = Fragment ''children'')"
proof -
  let ?p = "\<lparr>DashboardsV2_Props.organization =
               \<lparr>slug = ''acme'', features = [''discover'', ''dashboards-edit'']\<rparr>,
             DashboardsV2_Props.params = ''acme'', DashboardsV2_Props.api = (),
             DashboardsV2_Props.location = (), children = ''children''\<rparr>"
  let ?failed = "\<lparr>OrgDashboards_Result.dashboard = Some ''D'',
                  OrgDashboards_Result.dashboards = [''D''], error = Some True,
                  OrgDashboards_Result.reloadData = ()\<rparr>"
  have h: "''dashboards-edit'' \<in> set (features (DashboardsV2_Props.organization ?p))"
    by simp
  have "with_result ?failed (DashboardsV2Container ?p) = Fragment (children ?p)"
    by (rule container_passes_children_through [OF h, THEN conjunct2, THEN conjunct2, THEN spec])
  then have "with_result ?failed (DashboardsV2Container ?p) = Fragment ''children''"
    by simp
  with h show ?thesis
    unfolding Let_def by blast
qed

end
